theory Spec2Isabelle
  imports Complex_Main
begin

section \<open>Data model (the interfaces of the types module)\<close>

text \<open>
  The interfaces of the front end become records. Field names carry a short prefix
  because several interfaces share a field name (\<open>name\<close>, \<open>voice_id\<close>, \<open>duration\<close>)
  and some clash with constants of HOL (\<open>id\<close>, \<open>size\<close>) or with keywords (\<open>text\<close>):
  \<open>v_\<close> for \<open>Voice\<close>, \<open>req_\<close> for \<open>TTSRequest\<close>, \<open>res_\<close> for \<open>TTSResponse\<close>,
  \<open>vcr_\<close> for \<open>VoiceCloneRequest\<close>, \<open>lang_\<close> for \<open>Language\<close>, \<open>file_\<close> for the
  browser's \<open>File\<close>. An optional field (\<open>language?: string\<close>) is an \<open>option\<close>.

  A JavaScript \<open>number\<close> that is only carried around (a duration, a speed) is a \<open>real\<close>:
  none of the functions below computes with it. Counts and byte sizes are \<open>nat\<close>.
  A string is a list of bytes; the few non-ASCII letters of the German messages are written
  as their UTF-8 bytes.
\<close>

type_synonym number = real

datatype VoiceStatus = Processing | Ready | Error | Training

record Voice =
  v_id :: string
  v_name :: string
  v_description :: string
  v_status :: VoiceStatus
  v_created_at :: string
  v_language :: "string option"
  v_sample_count :: nat
  v_duration :: "number option"
  v_preview_url :: "string option"

record TTSRequest =
  req_text :: string
  req_voice_id :: string
  req_language :: string
  req_speed :: number
  req_temperature :: number

record TTSResponse =
  res_audio_url :: string
  res_filename :: string
  res_duration :: number
  res_text :: string
  res_voice_id :: string
  res_generated_at :: string

text \<open>The part of the browser's \<open>File\<close> object that the code reads.\<close>

record File =
  file_name :: string
  file_type :: string
  file_size :: nat

record VoiceCloneRequest =
  vcr_name :: string
  vcr_description :: string
  vcr_files :: "File list"

record Language =
  lang_code :: string
  lang_name :: string

record GenerationSettings =
  temperature :: number
  speed :: number
  language :: string

section \<open>Error normalisation (utils/api.ts, handleAPIError)\<close>

text \<open>
  The value caught after a failed gateway call: an object that may have a \<open>response\<close>
  (a non-2xx answer), whose \<open>data\<close> may be a JSON body with the optional string fields
  \<open>detail\<close> and \<open>message\<close>, and that may have a \<open>message\<close> of its own.
\<close>

record ResponseBody =
  detail :: "string option"
  body_message :: "string option"

record ErrorResponse =
  data :: "ResponseBody option"

record Failure =
  response :: "ErrorResponse option"
  message :: "string option"

text \<open>
  An \<open>if (x)\<close> on an optional string: \<open>undefined\<close> and the empty string are falsy,
  every other string is truthy.
\<close>

fun truthy :: "string option \<Rightarrow> bool" where
  "truthy None = False"
| "truthy (Some s) = (s \<noteq> [])"

text \<open>\<open>error.response?.data?.detail\<close> and \<open>error.response?.data?.message\<close>.\<close>

definition response_data_detail :: "Failure \<Rightarrow> string option" where
  "response_data_detail e = Option.bind (Option.bind (response e) data) detail"

definition response_data_message :: "Failure \<Rightarrow> string option" where
  "response_data_message e = Option.bind (Option.bind (response e) data) body_message"

definition unknown_error :: string where
  "unknown_error = ''Ein unbekannter Fehler ist aufgetreten''"

definition handleAPIError :: "Failure \<Rightarrow> string" where
  "handleAPIError e =
     (if truthy (response_data_detail e) then the (response_data_detail e)
      else if truthy (response_data_message e) then the (response_data_message e)
      else if truthy (message e) then the (message e)
      else unknown_error)"

section \<open>File intake validation (utils/api.ts, validateAudioFile)\<close>

record Validation =
  valid :: bool
  error_reason :: "string option"

definition validTypes :: "string list" where
  "validTypes = [''audio/wav'', ''audio/mp3'', ''audio/mpeg'', ''audio/ogg'', ''audio/webm'']"

definition maxSize :: nat where
  "maxSize = 50 * 1024 * 1024"

definition type_not_allowed :: string where
  "type_not_allowed = ''Nur Audio-Dateien sind erlaubt (WAV, MP3, OGG, WebM)''"

definition file_too_large :: string where
  "file_too_large = ''Datei ist zu gro'' @ [CHR 0xC3, CHR 0x9F] @ '' (max. 50MB)''"

definition validateAudioFile :: "File \<Rightarrow> Validation" where
  "validateAudioFile file =
     (if file_type file \<notin> set validTypes then
        \<lparr>valid = False, error_reason = Some type_not_allowed\<rparr>
      else if file_size file > maxSize then
        \<lparr>valid = False, error_reason = Some file_too_large\<rparr>
      else \<lparr>valid = True, error_reason = None\<rparr>)"

section \<open>Store operations: shape of the model\<close>

text \<open>
  An asynchronous store action is a function from the store's state before the call and
  the outcome of the one gateway call it awaits (\<open>Inl\<close> the caught failure, \<open>Inr\<close> the
  response body) to an \<open>Outcome\<close>: the state while the gateway call is awaited, the state
  after the action, the notifications and log lines the action emitted, in order, and what the
  action's promise settles with (\<open>Inl\<close> the re-thrown failure, \<open>Inr\<close> the returned value).
  The gateway is the remote service: its answer is an input of the model. The actions run
  one at a time; overlapping calls are not modelled.
\<close>

datatype effect = ToastSuccess string | ToastError string | ConsoleError "string list"

text \<open>A toast is shown to the user; a console line is not.\<close>

fun user_visible :: "effect \<Rightarrow> bool" where
  "user_visible (ToastSuccess s) = True"
| "user_visible (ToastError s) = True"
| "user_visible (ConsoleError args) = False"

record ('s, 'a) Outcome =
  pending :: 's
  state :: 's
  effects :: "effect list"
  settled :: "Failure + 'a"

section \<open>Generation history store (store/useTTSStore.ts)\<close>

record TTSStore =
  isGenerating :: bool
  currentAudio :: "TTSResponse option"
  history :: "TTSResponse list"

definition generateSpeech ::
  "TTSStore \<Rightarrow> TTSRequest \<Rightarrow> Failure + TTSResponse \<Rightarrow> (TTSStore, TTSResponse) Outcome" where
  "generateSpeech st request gateway =
     (let st1 = st\<lparr>isGenerating := True\<rparr> in
      case gateway of
        Inr resp \<Rightarrow>
          (let updatedHistory = resp # take 19 (history st1) in
           \<lparr>pending = st1,
            state = st1\<lparr>currentAudio := Some resp,
                         history := updatedHistory,
                         isGenerating := False\<rparr>,
            effects = [ToastSuccess ''Audio erfolgreich generiert!''],
            settled = Inr resp\<rparr>)
      | Inl err \<Rightarrow>
          (let errorMessage = handleAPIError err in
           \<lparr>pending = st1,
            state = st1\<lparr>isGenerating := False\<rparr>,
            effects = [ToastError (''Fehler bei der Audio-Generierung: '' @ errorMessage)],
            settled = Inl err\<rparr>))"

text \<open>\<open>clearHistory\<close> is synchronous: the state after it and what it emitted.\<close>

definition clearHistory :: "TTSStore \<Rightarrow> TTSStore \<times> effect list" where
  "clearHistory st =
     (st\<lparr>history := [], currentAudio := None\<rparr>,
      [ToastSuccess (''Verlauf gel'' @ [CHR 0xC3, CHR 0xB6] @ ''scht'')])"

text \<open>What the persist middleware writes to storage: \<open>partialize\<close>.\<close>

record PersistedTTS =
  persisted_history :: "TTSResponse list"

definition partialize :: "TTSStore \<Rightarrow> PersistedTTS" where
  "partialize st = \<lparr>persisted_history = take 10 (history st)\<rparr>"

text \<open>
  Successive calls of \<open>generateSpeech\<close>, each awaited before the next starts: the state
  after the calls, given each call's request and the gateway's answer to it.
\<close>

fun generateSpeech_seq :: "TTSStore \<Rightarrow> (TTSRequest \<times> (Failure + TTSResponse)) list \<Rightarrow> TTSStore" where
  "generateSpeech_seq st [] = st"
| "generateSpeech_seq st ((request, gateway) # calls) =
     generateSpeech_seq (state (generateSpeech st request gateway)) calls"

section \<open>Settings store (store/useSettingsStore.ts)\<close>

record SettingsStore =
  settings :: GenerationSettings
  languages :: "Language list"

record LanguagesResponse =
  resp_languages :: "Language list"

definition fallbackLanguages :: "Language list" where
  "fallbackLanguages =
     [\<lparr>lang_code = ''de'', lang_name = ''Deutsch''\<rparr>,
      \<lparr>lang_code = ''en'', lang_name = ''English''\<rparr>,
      \<lparr>lang_code = ''es'', lang_name = ''Espa'' @ [CHR 0xC3, CHR 0xB1] @ ''ol''\<rparr>,
      \<lparr>lang_code = ''fr'', lang_name = ''Fran'' @ [CHR 0xC3, CHR 0xA7] @ ''ais''\<rparr>,
      \<lparr>lang_code = ''it'', lang_name = ''Italiano''\<rparr>,
      \<lparr>lang_code = ''pt'', lang_name = ''Portugu'' @ [CHR 0xC3, CHR 0xAA] @ ''s''\<rparr>]"

definition fetchLanguages ::
  "SettingsStore \<Rightarrow> Failure + LanguagesResponse \<Rightarrow> (SettingsStore, unit) Outcome" where
  "fetchLanguages st gateway =
     (case gateway of
        Inr resp \<Rightarrow>
          \<lparr>pending = st,
           state = st\<lparr>languages := resp_languages resp\<rparr>,
           effects = [],
           settled = Inr ()\<rparr>
      | Inl err \<Rightarrow>
          (let errorMessage = handleAPIError err in
           \<lparr>pending = st,
            state = st\<lparr>languages := fallbackLanguages\<rparr>,
            effects = [ConsoleError [''Failed to fetch languages:'', errorMessage]],
            settled = Inr ()\<rparr>))"

section \<open>Voice registry store (useVoiceStore, in pages/VoiceClonePage.tsx)\<close>

record VoiceStore =
  voices :: "Voice list"
  selectedVoice :: "Voice option"
  isLoading :: bool
  error :: "string option"

definition fetchVoices :: "VoiceStore \<Rightarrow> Failure + Voice list \<Rightarrow> (VoiceStore, unit) Outcome" where
  "fetchVoices st gateway =
     (let st1 = st\<lparr>isLoading := True, error := None\<rparr> in
      case gateway of
        Inr vs \<Rightarrow>
          \<lparr>pending = st1,
           state = st1\<lparr>voices := vs, isLoading := False\<rparr>,
           effects = [],
           settled = Inr ()\<rparr>
      | Inl err \<Rightarrow>
          (let errorMessage = handleAPIError err in
           \<lparr>pending = st1,
            state = st1\<lparr>error := Some errorMessage, isLoading := False\<rparr>,
            effects = [ToastError (''Fehler beim Laden der Stimmen: '' @ errorMessage)],
            settled = Inr ()\<rparr>))"

definition selectVoice :: "VoiceStore \<Rightarrow> Voice option \<Rightarrow> VoiceStore" where
  "selectVoice st voice = st\<lparr>selectedVoice := voice\<rparr>"

record DeleteResponse =
  del_message :: string

text \<open>\<open>selectedVoice?.id === voiceId\<close>.\<close>

fun selected_is :: "Voice option \<Rightarrow> string \<Rightarrow> bool" where
  "selected_is None voiceId = False"
| "selected_is (Some v) voiceId = (v_id v = voiceId)"

definition deleteVoice ::
  "VoiceStore \<Rightarrow> string \<Rightarrow> Failure + DeleteResponse \<Rightarrow> (VoiceStore, unit) Outcome" where
  "deleteVoice st voiceId gateway =
     (case gateway of
        Inr _ \<Rightarrow>
          (let updatedVoices = filter (\<lambda>v. v_id v \<noteq> voiceId) (voices st);
               st1 = st\<lparr>voices := updatedVoices\<rparr>;
               st2 = (if selected_is (selectedVoice st1) voiceId
                      then st1\<lparr>selectedVoice := None\<rparr> else st1) in
           \<lparr>pending = st,
            state = st2,
            effects = [ToastSuccess (''Stimme erfolgreich gel'' @ [CHR 0xC3, CHR 0xB6] @ ''scht'')],
            settled = Inr ()\<rparr>)
      | Inl err \<Rightarrow>
          (let errorMessage = handleAPIError err in
           \<lparr>pending = st,
            state = st,
            effects = [ToastError (''Fehler beim L'' @ [CHR 0xC3, CHR 0xB6] @ ''schen: '' @ errorMessage)],
            settled = Inl err\<rparr>))"

record CloneResponse =
  cr_voice_id :: string
  cr_status :: string
  cr_message :: string

text \<open>
  \<open>now\<close> is what \<open>new Date().toISOString()\<close> returns when the gateway call has
  succeeded: the client's clock, read by the action itself.
\<close>

definition cloneVoice ::
  "VoiceStore \<Rightarrow> VoiceCloneRequest \<Rightarrow> string \<Rightarrow> Failure + CloneResponse \<Rightarrow> (VoiceStore, string) Outcome" where
  "cloneVoice st request now gateway =
     (let st1 = st\<lparr>isLoading := True, error := None\<rparr> in
      case gateway of
        Inr resp \<Rightarrow>
          (let newVoice =
                 \<lparr>v_id = cr_voice_id resp,
                  v_name = vcr_name request,
                  v_description = vcr_description request,
                  v_status = Processing,
                  v_created_at = now,
                  v_language = None,
                  v_sample_count = length (vcr_files request),
                  v_duration = None,
                  v_preview_url = None\<rparr> in
           \<lparr>pending = st1,
            state = st1\<lparr>voices := newVoice # voices st1, isLoading := False\<rparr>,
            effects = [ToastSuccess (''Voice Cloning f'' @ [CHR 0xC3, CHR 0xBC] @ ''r '' @ [CHR 0x22]
                                      @ vcr_name request @ [CHR 0x22] @ '' gestartet'')],
            settled = Inr (cr_voice_id resp)\<rparr>)
      | Inl err \<Rightarrow>
          (let errorMessage = handleAPIError err in
           \<lparr>pending = st1,
            state = st1\<lparr>error := Some errorMessage, isLoading := False\<rparr>,
            effects = [ToastError (''Fehler beim Voice Cloning: '' @ errorMessage)],
            settled = Inl err\<rparr>))"

section \<open>Sample data for the concrete checks\<close>

definition sample_voice :: "string \<Rightarrow> Voice" where
  "sample_voice i =
     \<lparr>v_id = i, v_name = ''Stimme '' @ i, v_description = ''Test'',
      v_status = Ready, v_created_at = ''2024-01-01T00:00:00.000Z'', v_language = Some ''de'',
      v_sample_count = 3, v_duration = None, v_preview_url = None\<rparr>"

definition sample_request :: TTSRequest where
  "sample_request =
     \<lparr>req_text = ''Hallo'', req_voice_id = ''a'', req_language = ''de'',
      req_speed = 1, req_temperature = 1\<rparr>"

definition sample_response :: "nat \<Rightarrow> TTSResponse" where
  "sample_response k =
     \<lparr>res_audio_url = ''/audio/out.wav'', res_filename = ''out.wav'', res_duration = real k,
      res_text = ''Hallo'', res_voice_id = ''a'', res_generated_at = ''2024-01-01T00:00:00Z''\<rparr>"

section \<open>Error normalisation\<close>

lemma response_data_detail_fields:
  "response_data_detail e =
     (case response e of None \<Rightarrow> None
      | Some r \<Rightarrow> (case data r of None \<Rightarrow> None | Some b \<Rightarrow> detail b))"
  by (simp add: response_data_detail_def split: option.splits)

lemma response_data_message_fields:
  "response_data_message e =
     (case response e of None \<Rightarrow> None
      | Some r \<Rightarrow> (case data r of None \<Rightarrow> None | Some b \<Rightarrow> body_message b))"
  by (simp add: response_data_message_def split: option.splits)

lemma falsy_iff: "\<not> truthy x \<longleftrightarrow> x = None \<or> x = Some []"
  by (cases x) auto

text \<open>
  Claim C1, as the code has it. The message is chosen by the ordered fallback, where a field
  counts only when it is a non-empty string: a non-empty \<open>detail\<close> of the response body is
  returned; otherwise a non-empty \<open>message\<close> of the body; otherwise a non-empty message of
  the error itself; otherwise the fixed fallback string. The four cases exclude each other
  and cover every failure value.
\<close>

theorem handleAPIError_ordered_fallback:
  "(response_data_detail e = Some d \<and> d \<noteq> [] \<longrightarrow> handleAPIError e = d) \<and>
   (response_data_detail e \<in> {None, Some []} \<and> response_data_message e = Some m \<and> m \<noteq> []
      \<longrightarrow> handleAPIError e = m) \<and>
   (response_data_detail e \<in> {None, Some []} \<and> response_data_message e \<in> {None, Some []} \<and>
    message e = Some t \<and> t \<noteq> [] \<longrightarrow> handleAPIError e = t) \<and>
   (response_data_detail e \<in> {None, Some []} \<and> response_data_message e \<in> {None, Some []} \<and>
    message e \<in> {None, Some []}
      \<longrightarrow> handleAPIError e = ''Ein unbekannter Fehler ist aufgetreten'')"
  by (auto simp: handleAPIError_def unknown_error_def)

text \<open>
  The four branches at the inputs the specification lists: a body with a detail, a body
  with a message only, a transport error with the message \<open>timeout\<close>, and a failure with
  no message at all.
\<close>

theorem handleAPIError_ordered_fallback_witness:
  "handleAPIError \<lparr>response = Some \<lparr>data = Some \<lparr>detail = Some ''D'', body_message = Some ''M''\<rparr>\<rparr>,
                   message = Some ''Request failed''\<rparr> = ''D'' \<and>
   handleAPIError \<lparr>response = Some \<lparr>data = Some \<lparr>detail = None, body_message = Some ''M''\<rparr>\<rparr>,
                   message = Some ''Request failed''\<rparr> = ''M'' \<and>
   handleAPIError \<lparr>response = None, message = Some ''timeout''\<rparr> = ''timeout'' \<and>
   handleAPIError \<lparr>response = None, message = None\<rparr> = ''Ein unbekannter Fehler ist aufgetreten''"
  using handleAPIError_ordered_fallback
          [of "\<lparr>response = Some \<lparr>data = Some \<lparr>detail = Some ''D'', body_message = Some ''M''\<rparr>\<rparr>,
                message = Some ''Request failed''\<rparr>" "''D''"]
        handleAPIError_ordered_fallback
          [of "\<lparr>response = Some \<lparr>data = Some \<lparr>detail = None, body_message = Some ''M''\<rparr>\<rparr>,
                message = Some ''Request failed''\<rparr>" _ "''M''"]
        handleAPIError_ordered_fallback
          [of "\<lparr>response = None, message = Some ''timeout''\<rparr>" _ _ "''timeout''"]
        handleAPIError_ordered_fallback
          [of "\<lparr>response = None, message = None\<rparr>"]
  by (simp add: response_data_detail_def response_data_message_def)

text \<open>
  Claim C1 as stated fails where the body carries a detail field that is the empty string:
  \<open>if (error.response?.data?.detail)\<close> is false for the empty string, so the body's
  message is returned and not the detail.
\<close>

theorem handleAPIError_empty_detail_counterexample:
  "detail \<lparr>detail = Some '''', body_message = Some ''M''\<rparr> = Some '''' \<and>
   handleAPIError \<lparr>response = Some \<lparr>data = Some \<lparr>detail = Some '''', body_message = Some ''M''\<rparr>\<rparr>,
                   message = None\<rparr> = ''M'' \<and>
   handleAPIError \<lparr>response = Some \<lparr>data = Some \<lparr>detail = Some '''', body_message = Some ''M''\<rparr>\<rparr>,
                   message = None\<rparr> \<noteq> ''''"
  by (simp add: handleAPIError_def response_data_detail_def response_data_message_def)

section \<open>File intake validation\<close>

text \<open>
  Claim C2. A file whose MIME type is outside the allow-list is invalid with the
  type-not-allowed reason; a file of an allowed type larger than 50 MiB (52428800 bytes) is
  invalid with the too-large reason; every other file is valid. The verdict is a function
  of the file's type and size alone, and the two reasons differ. (The model is a HOL
  function: it reads nothing but its argument and changes nothing.)
\<close>

theorem validateAudioFile_verdicts:
  "(file_type f \<notin> {''audio/wav'', ''audio/mp3'', ''audio/mpeg'', ''audio/ogg'', ''audio/webm''}
      \<longrightarrow> validateAudioFile f = \<lparr>valid = False, error_reason = Some type_not_allowed\<rparr>) \<and>
   (file_type f \<in> {''audio/wav'', ''audio/mp3'', ''audio/mpeg'', ''audio/ogg'', ''audio/webm''} \<and>
    file_size f > 52428800
      \<longrightarrow> validateAudioFile f = \<lparr>valid = False, error_reason = Some file_too_large\<rparr>) \<and>
   (file_type f \<in> {''audio/wav'', ''audio/mp3'', ''audio/mpeg'', ''audio/ogg'', ''audio/webm''} \<and>
    file_size f \<le> 52428800
      \<longrightarrow> validateAudioFile f = \<lparr>valid = True, error_reason = None\<rparr>) \<and>
   (file_type f = file_type g \<and> file_size f = file_size g
      \<longrightarrow> validateAudioFile f = validateAudioFile g) \<and>
   type_not_allowed \<noteq> file_too_large"
  by (simp add: validateAudioFile_def validTypes_def maxSize_def type_not_allowed_def
        file_too_large_def)

text \<open>
  A text file, a WAV file one byte over the ceiling and an MP3 file of exactly 50 MiB; and
  two files that differ in name only.
\<close>

theorem validateAudioFile_verdicts_witness:
  "validateAudioFile \<lparr>file_name = ''notes.txt'', file_type = ''text/plain'', file_size = 10\<rparr>
     = \<lparr>valid = False, error_reason = Some type_not_allowed\<rparr> \<and>
   validateAudioFile \<lparr>file_name = ''big.wav'', file_type = ''audio/wav'', file_size = 52428801\<rparr>
     = \<lparr>valid = False, error_reason = Some file_too_large\<rparr> \<and>
   validateAudioFile \<lparr>file_name = ''ok.mp3'', file_type = ''audio/mpeg'', file_size = 52428800\<rparr>
     = \<lparr>valid = True, error_reason = None\<rparr> \<and>
   validateAudioFile \<lparr>file_name = ''one.ogg'', file_type = ''audio/ogg'', file_size = 7\<rparr>
     = validateAudioFile \<lparr>file_name = ''two.ogg'', file_type = ''audio/ogg'', file_size = 7\<rparr>"
proof -
  have a: "validateAudioFile \<lparr>file_name = ''notes.txt'', file_type = ''text/plain'', file_size = 10\<rparr>
             = \<lparr>valid = False, error_reason = Some type_not_allowed\<rparr>"
    using validateAudioFile_verdicts
            [of "\<lparr>file_name = ''notes.txt'', file_type = ''text/plain'', file_size = 10\<rparr>"]
    by simp
  have b: "validateAudioFile \<lparr>file_name = ''big.wav'', file_type = ''audio/wav'', file_size = 52428801\<rparr>
             = \<lparr>valid = False, error_reason = Some file_too_large\<rparr>"
    using validateAudioFile_verdicts
            [of "\<lparr>file_name = ''big.wav'', file_type = ''audio/wav'', file_size = 52428801\<rparr>"]
    by simp
  have c: "validateAudioFile \<lparr>file_name = ''ok.mp3'', file_type = ''audio/mpeg'', file_size = 52428800\<rparr>
             = \<lparr>valid = True, error_reason = None\<rparr>"
    using validateAudioFile_verdicts
            [of "\<lparr>file_name = ''ok.mp3'', file_type = ''audio/mpeg'', file_size = 52428800\<rparr>"]
    by simp
  have d: "validateAudioFile \<lparr>file_name = ''one.ogg'', file_type = ''audio/ogg'', file_size = 7\<rparr>
             = validateAudioFile \<lparr>file_name = ''two.ogg'', file_type = ''audio/ogg'', file_size = 7\<rparr>"
    using validateAudioFile_verdicts
            [of "\<lparr>file_name = ''one.ogg'', file_type = ''audio/ogg'', file_size = 7\<rparr>"
                "\<lparr>file_name = ''two.ogg'', file_type = ''audio/ogg'', file_size = 7\<rparr>",
             THEN conjunct2, THEN conjunct2, THEN conjunct2, THEN conjunct1]
    by simp
  from a b c d show ?thesis by blast
qed

text \<open>
  Claim C10. A file of a type outside the allow-list that is also larger than 50 MiB gets
  the type-not-allowed reason, not the too-large reason; and for a file of such a type the
  verdict does not depend on the size at all.
\<close>

theorem validateAudioFile_type_before_size:
  "file_type f \<notin> set validTypes \<Longrightarrow>
     (file_size f > maxSize \<longrightarrow>
        validateAudioFile f = \<lparr>valid = False, error_reason = Some type_not_allowed\<rparr> \<and>
        error_reason (validateAudioFile f) \<noteq> Some file_too_large) \<and>
     validateAudioFile (f\<lparr>file_size := n\<rparr>) = validateAudioFile f"
  by (simp add: validateAudioFile_def type_not_allowed_def file_too_large_def)

text \<open>A video file of 60 000 000 bytes, and the same file with 10 bytes.\<close>

theorem validateAudioFile_type_before_size_witness:
  "validateAudioFile \<lparr>file_name = ''clip.mp4'', file_type = ''video/mp4'', file_size = 60000000\<rparr>
     = \<lparr>valid = False, error_reason = Some type_not_allowed\<rparr> \<and>
   error_reason (validateAudioFile \<lparr>file_name = ''clip.mp4'', file_type = ''video/mp4'', file_size = 60000000\<rparr>)
     \<noteq> Some file_too_large \<and>
   validateAudioFile \<lparr>file_name = ''clip.mp4'', file_type = ''video/mp4'', file_size = 10\<rparr>
     = validateAudioFile \<lparr>file_name = ''clip.mp4'', file_type = ''video/mp4'', file_size = 60000000\<rparr>"
  using validateAudioFile_type_before_size
          [of "\<lparr>file_name = ''clip.mp4'', file_type = ''video/mp4'', file_size = 60000000\<rparr>" 10]
  by (simp add: validTypes_def maxSize_def type_not_allowed_def file_too_large_def)

section \<open>Generation history store\<close>

lemma take_append_cons_take:
  "take 20 (xs @ r # take 19 h) = take 20 (xs @ r # h)"
  by (cases "20 - length xs") (simp_all add: min_def)

lemma generateSpeech_success_history:
  "history (state (generateSpeech st rq (Inr r))) = r # take 19 (history st)"
  by (simp add: generateSpeech_def Let_def)

text \<open>
  After any number of successful calls from a history within the cap, the history is the
  responses, newest first, in front of the old history, cut at 20.
\<close>

lemma generateSpeech_seq_history:
  "length (history st) \<le> 20 \<Longrightarrow>
   history (generateSpeech_seq st (map (\<lambda>(rq, r). (rq, Inr r)) calls))
     = take 20 (rev (map snd calls) @ history st)"
proof (induction calls arbitrary: st)
  case Nil
  then show ?case by simp
next
  case (Cons c calls)
  obtain rq r where c: "c = (rq, r)" by (cases c)
  have "length (history (state (generateSpeech st rq (Inr r)))) \<le> 20"
    by (simp add: generateSpeech_success_history)
  from Cons.IH [OF this]
  have "history (generateSpeech_seq st (map (\<lambda>(rq, r). (rq, Inr r)) (c # calls)))
          = take 20 (rev (map snd calls) @ r # take 19 (history st))"
    by (simp add: c generateSpeech_success_history del: take_append)
  also have "\<dots> = take 20 (rev (map snd calls) @ r # history st)"
    by (rule take_append_cons_take)
  also have "\<dots> = take 20 (rev (map snd (c # calls)) @ history st)"
    by (simp add: c)
  finally show ?case .
qed

text \<open>
  Claim C3. \<open>calls\<close> lists the successive calls, each with its request and the response
  the gateway gave, oldest first; so \<open>rev (map snd calls)\<close> is the responses, most recent
  first. Starting from an empty history, after the N calls the in-memory history is the
  20 most recent responses, most recent first, and has min(N, 20) entries; what is
  persisted is the 10 most recent, most recent first, and has exactly 10 entries when
  N > 10.
\<close>

theorem history_caps:
  assumes "history st = []"
  shows "history (generateSpeech_seq st (map (\<lambda>(rq, r). (rq, Inr r)) calls))
           = take 20 (rev (map snd calls))
       \<and> length (history (generateSpeech_seq st (map (\<lambda>(rq, r). (rq, Inr r)) calls)))
           = min (length calls) 20
       \<and> persisted_history (partialize (generateSpeech_seq st (map (\<lambda>(rq, r). (rq, Inr r)) calls)))
           = take 10 (rev (map snd calls))
       \<and> (length calls > 10 \<longrightarrow>
            length (persisted_history
              (partialize (generateSpeech_seq st (map (\<lambda>(rq, r). (rq, Inr r)) calls)))) = 10)"
  using assms by (simp add: generateSpeech_seq_history partialize_def min_def)

text \<open>
  Eleven calls from the initial store: all eleven responses are in memory, the ten most
  recent are persisted. Twenty-one calls: the first response has left the memory too.
\<close>

theorem history_caps_witness:
  "history (generateSpeech_seq \<lparr>isGenerating = False, currentAudio = None, history = []\<rparr>
      (map (\<lambda>(rq, r). (rq, Inr r))
        (map (\<lambda>k. (sample_request, sample_response k)) [1, 2, 3, 4, 5, 6, 7, 8, 9, 10, 11])))
     = map sample_response [11, 10, 9, 8, 7, 6, 5, 4, 3, 2, 1] \<and>
   persisted_history (partialize
     (generateSpeech_seq \<lparr>isGenerating = False, currentAudio = None, history = []\<rparr>
      (map (\<lambda>(rq, r). (rq, Inr r))
        (map (\<lambda>k. (sample_request, sample_response k)) [1, 2, 3, 4, 5, 6, 7, 8, 9, 10, 11]))))
     = map sample_response [11, 10, 9, 8, 7, 6, 5, 4, 3, 2] \<and>
   history (generateSpeech_seq \<lparr>isGenerating = False, currentAudio = None, history = []\<rparr>
      (map (\<lambda>(rq, r). (rq, Inr r))
        (map (\<lambda>k. (sample_request, sample_response k))
          [1, 2, 3, 4, 5, 6, 7, 8, 9, 10, 11, 12, 13, 14, 15, 16, 17, 18, 19, 20, 21])))
     = map sample_response
         [21, 20, 19, 18, 17, 16, 15, 14, 13, 12, 11, 10, 9, 8, 7, 6, 5, 4, 3, 2]"
proof -
  have a: "history \<lparr>isGenerating = False, currentAudio = None, history = []\<rparr> = []"
    by simp
  show ?thesis
    using history_caps [OF a, of
            "map (\<lambda>k. (sample_request, sample_response k)) [1, 2, 3, 4, 5, 6, 7, 8, 9, 10, 11]"]
          history_caps [OF a, of
            "map (\<lambda>k. (sample_request, sample_response k))
               [1, 2, 3, 4, 5, 6, 7, 8, 9, 10, 11, 12, 13, 14, 15, 16, 17, 18, 19, 20, 21]"]
    by simp
qed

text \<open>
  Claim C6. When the gateway fails, \<open>generateSpeech\<close> leaves \<open>isGenerating\<close> false,
  settles with the very failure it caught, and leaves the history (and the current audio)
  as they were: the state after the call is the state before it with the flag cleared.
\<close>

theorem generateSpeech_failure:
  "isGenerating (state (generateSpeech st rq (Inl e))) = False \<and>
   settled (generateSpeech st rq (Inl e)) = Inl e \<and>
   history (state (generateSpeech st rq (Inl e))) = history st \<and>
   currentAudio (state (generateSpeech st rq (Inl e))) = currentAudio st \<and>
   state (generateSpeech st rq (Inl e)) = st\<lparr>isGenerating := False\<rparr>"
  by (simp add: generateSpeech_def Let_def)

text \<open>
  Claim C9. Whatever the history was, after \<open>clearHistory\<close> and one successful
  \<open>generateSpeech\<close> the history is the one-element list of that response, and
  \<open>currentAudio\<close> is that response.
\<close>

theorem clearHistory_then_generateSpeech:
  "history (state (generateSpeech (fst (clearHistory st)) rq (Inr r))) = [r] \<and>
   length (history (state (generateSpeech (fst (clearHistory st)) rq (Inr r)))) = 1 \<and>
   currentAudio (state (generateSpeech (fst (clearHistory st)) rq (Inr r))) = Some r \<and>
   settled (generateSpeech (fst (clearHistory st)) rq (Inr r)) = Inr r"
  by (simp add: generateSpeech_def clearHistory_def Let_def)

section \<open>Settings store\<close>

text \<open>
  Claim C7. On success \<open>fetchLanguages\<close> replaces the language list with the fetched one.
  On failure the list becomes the fixed fallback, six entries with the codes de, en, es,
  fr, it, pt in this order, whatever the list was; the action settles normally and emits
  nothing the user sees (a console line only).
\<close>

theorem fetchLanguages_fallback:
  "languages (state (fetchLanguages st (Inr resp))) = resp_languages resp \<and>
   languages (state (fetchLanguages st (Inl e))) = fallbackLanguages \<and>
   map lang_code fallbackLanguages = [''de'', ''en'', ''es'', ''fr'', ''it'', ''pt''] \<and>
   length fallbackLanguages = 6 \<and>
   settled (fetchLanguages st (Inl e)) = Inr () \<and>
   filter user_visible (effects (fetchLanguages st (Inl e))) = [] \<and>
   settings (state (fetchLanguages st (Inl e))) = settings st"
  by (simp add: fetchLanguages_def fallbackLanguages_def Let_def)

section \<open>Voice registry store\<close>

text \<open>
  Claim C8. While the gateway call is awaited the loading flag is set. On success the
  voice list is the fetched list and the error field is null; on failure the voice list is
  the one before the call and the error field holds the normalised message of the failure.
  Either way the loading flag is cleared at the end.
\<close>

theorem fetchVoices_outcomes:
  "isLoading (pending (fetchVoices st gw)) = True \<and>
   isLoading (state (fetchVoices st gw)) = False \<and>
   voices (state (fetchVoices st (Inr vs))) = vs \<and>
   error (state (fetchVoices st (Inr vs))) = None \<and>
   voices (state (fetchVoices st (Inl e))) = voices st \<and>
   error (state (fetchVoices st (Inl e))) = Some (handleAPIError e)"
  by (cases gw) (simp_all add: fetchVoices_def Let_def)

text \<open>
  Claim C5. On success \<open>cloneVoice\<close> puts one new record in front of the voice list: the
  id the gateway returned, name and description of the request, status \<open>processing\<close>, the
  client's timestamp, and as sample count the number of files of the request; the entries
  that were there follow it unchanged, so the list is longer by one. On failure the voice
  list is the one before the call, the error field holds the normalised message, and the
  action settles with the failure it caught.
\<close>

theorem cloneVoice_outcomes:
  "voices (state (cloneVoice st rq now (Inr resp)))
     = \<lparr>v_id = cr_voice_id resp, v_name = vcr_name rq, v_description = vcr_description rq,
        v_status = Processing, v_created_at = now, v_language = None,
        v_sample_count = length (vcr_files rq), v_duration = None, v_preview_url = None\<rparr>
       # voices st \<and>
   length (voices (state (cloneVoice st rq now (Inr resp)))) = Suc (length (voices st)) \<and>
   drop 1 (voices (state (cloneVoice st rq now (Inr resp)))) = voices st \<and>
   settled (cloneVoice st rq now (Inr resp)) = Inr (cr_voice_id resp) \<and>
   voices (state (cloneVoice st rq now (Inl e))) = voices st \<and>
   error (state (cloneVoice st rq now (Inl e))) = Some (handleAPIError e) \<and>
   settled (cloneVoice st rq now (Inl e)) = Inl e"
  by (simp add: cloneVoice_def Let_def)

lemma filter_other_ids:
  assumes "v_id v = i" and "i \<notin> v_id ` set (xs @ ys)"
  shows "filter (\<lambda>w. v_id w \<noteq> i) (xs @ v # ys) = xs @ ys"
proof -
  have "filter (\<lambda>w. v_id w \<noteq> i) xs = xs" "filter (\<lambda>w. v_id w \<noteq> i) ys = ys"
    using assms(2) by (auto intro!: filter_True)
  with assms(1) show ?thesis by simp
qed

text \<open>
  Claim C4, as the code has it. On success \<open>deleteVoice\<close> keeps exactly the entries whose
  id differs from the given one, in their order: every entry with that id is removed, which
  is exactly one entry when exactly one entry of the list has the id. The selection becomes
  null when the selected voice has the id and stays as it was otherwise. On failure the
  state after the call is the state before it, and the action settles with the failure it
  caught.
\<close>

theorem deleteVoice_outcomes:
  "voices (state (deleteVoice st i (Inr r))) = filter (\<lambda>v. v_id v \<noteq> i) (voices st) \<and>
   (voices st = xs @ v # ys \<and> v_id v = i \<and> i \<notin> v_id ` set (xs @ ys)
      \<longrightarrow> voices (state (deleteVoice st i (Inr r))) = xs @ ys) \<and>
   (selectedVoice st = Some sv \<and> v_id sv = i
      \<longrightarrow> selectedVoice (state (deleteVoice st i (Inr r))) = None) \<and>
   ((\<forall>w. selectedVoice st = Some w \<longrightarrow> v_id w \<noteq> i)
      \<longrightarrow> selectedVoice (state (deleteVoice st i (Inr r))) = selectedVoice st) \<and>
   state (deleteVoice st i (Inl e)) = st \<and>
   settled (deleteVoice st i (Inl e)) = Inl e"
proof -
  have "voices st = xs @ v # ys \<and> v_id v = i \<and> i \<notin> v_id ` set (xs @ ys)
      \<longrightarrow> voices (state (deleteVoice st i (Inr r))) = xs @ ys"
    using filter_other_ids [of v i xs ys] by (simp add: deleteVoice_def Let_def)
  moreover have "(\<forall>w. selectedVoice st = Some w \<longrightarrow> v_id w \<noteq> i)
      \<longrightarrow> selectedVoice (state (deleteVoice st i (Inr r))) = selectedVoice st"
    by (cases "selectedVoice st") (simp_all add: deleteVoice_def Let_def)
  ultimately show ?thesis
    by (simp add: deleteVoice_def Let_def)
qed

text \<open>
  Three voices a, b, c, of which b is deleted: with b selected the selection is cleared,
  with a selected it stays.
\<close>

theorem deleteVoice_outcomes_witness:
  "voices (state (deleteVoice
       \<lparr>voices = [sample_voice ''a'', sample_voice ''b'', sample_voice ''c''],
        selectedVoice = Some (sample_voice ''b''), isLoading = False, error = None\<rparr>
       ''b'' (Inr \<lparr>del_message = ''ok''\<rparr>)))
     = [sample_voice ''a'', sample_voice ''c''] \<and>
   selectedVoice (state (deleteVoice
       \<lparr>voices = [sample_voice ''a'', sample_voice ''b'', sample_voice ''c''],
        selectedVoice = Some (sample_voice ''b''), isLoading = False, error = None\<rparr>
       ''b'' (Inr \<lparr>del_message = ''ok''\<rparr>)))
     = None \<and>
   selectedVoice (state (deleteVoice
       \<lparr>voices = [sample_voice ''a'', sample_voice ''b'', sample_voice ''c''],
        selectedVoice = Some (sample_voice ''a''), isLoading = False, error = None\<rparr>
       ''b'' (Inr \<lparr>del_message = ''ok''\<rparr>)))
     = Some (sample_voice ''a'')"
  using deleteVoice_outcomes
          [of "\<lparr>voices = [sample_voice ''a'', sample_voice ''b'', sample_voice ''c''],
                selectedVoice = Some (sample_voice ''b''), isLoading = False, error = None\<rparr>"
              "''b''" "\<lparr>del_message = ''ok''\<rparr>"
              "[sample_voice ''a'']" "sample_voice ''b''" "[sample_voice ''c'']"
              "sample_voice ''b''"]
        deleteVoice_outcomes
          [of "\<lparr>voices = [sample_voice ''a'', sample_voice ''b'', sample_voice ''c''],
                selectedVoice = Some (sample_voice ''a''), isLoading = False, error = None\<rparr>"
              "''b''" "\<lparr>del_message = ''ok''\<rparr>"]
  by (simp add: sample_voice_def)

text \<open>
  Claim C4 as stated fails for an id that no entry of the list has: the gateway call
  succeeds, and the list after the call is the list before it, with no entry removed.
\<close>

theorem deleteVoice_absent_id_counterexample:
  "settled (deleteVoice
       \<lparr>voices = [sample_voice ''a''], selectedVoice = None, isLoading = False, error = None\<rparr>
       ''b'' (Inr \<lparr>del_message = ''ok''\<rparr>)) = Inr () \<and>
   voices (state (deleteVoice
       \<lparr>voices = [sample_voice ''a''], selectedVoice = None, isLoading = False, error = None\<rparr>
       ''b'' (Inr \<lparr>del_message = ''ok''\<rparr>)))
     = [sample_voice ''a''] \<and>
   length (voices (state (deleteVoice
       \<lparr>voices = [sample_voice ''a''], selectedVoice = None, isLoading = False, error = None\<rparr>
       ''b'' (Inr \<lparr>del_message = ''ok''\<rparr>)))) = 1"
  by (simp add: deleteVoice_def sample_voice_def Let_def)

end
